theory Spec2Isabelle
  imports Complex_Main
begin

section \<open>Drift detector: data model\<close>

text \<open>
  Shallow embedding of \<open>monitoring/collectors/drift_detector.py\<close> (class
  \<open>DriftDetector\<close>). Python \<open>int\<close> is \<open>int\<close>; Python \<open>float\<close> is idealised as
  \<open>real\<close> (exact arithmetic, no rounding); nan and arrays are values of their own
  where the module computes with what a library returns.
  A leading underscore of a Python method name is dropped, since an Isabelle name cannot
  start with one.
\<close>

text \<open>
  The values an observation can carry. \<open>PNpFloat64\<close> and \<open>PNpInt64\<close> are numpy scalars:
  \<open>numpy.float64\<close> is a subclass of Python's \<open>float\<close>, \<open>numpy.int64\<close> is not a subclass
  of \<open>int\<close>.
\<close>

datatype pyval =
    PNone
  | PBool bool
  | PInt int
  | PFloat real
  | PStr string
  | PNpFloat64 real
  | PNpInt64 int
  | PList "pyval list"

text \<open>A Python dict keeps insertion order and has unique keys: an association list.\<close>

type_synonym 'v pydict = "(string \<times> 'v) list"

text \<open>\<open>d[k] = v\<close>: an existing key keeps its position, a new key goes to the end.\<close>

fun dict_set :: "'v pydict \<Rightarrow> string \<Rightarrow> 'v \<Rightarrow> 'v pydict" where
  "dict_set [] k v = [(k, v)]"
| "dict_set ((k', v') # kvs) k v =
     (if k' = k then (k, v) # kvs else (k', v') # dict_set kvs k v)"

text \<open>
  \<open>self.isolation_forest\<close>: \<open>_train_anomaly_detector\<close> assigns the new
  \<open>IsolationForest\<close> before it calls \<open>fit\<close>, so the attribute can hold an unfitted
  estimator. A fitted one is identified by the columns it was fitted on.
\<close>

datatype forest = Unfitted | Fitted "pyval list pydict"

record detector =
  model_name :: string
  model_version :: string
  reference_data_path :: "string option"
  metrics_store :: string
  push_gateway_url :: "string option"
  drift_threshold :: real
  window_size :: int
  reference_features :: "pyval list pydict"
  reference_predictions :: "pyval list"
  current_features :: "pyval list pydict"
  current_predictions :: "pyval list"
  isolation_forest :: "forest option"

section \<open>Exceptions, scores and the outside world\<close>

text \<open>
  A raised exception (a subclass of \<open>Exception\<close>): its class name and message. A function
  whose body can raise returns \<open>exn + 'a\<close> beside the state it leaves; \<open>Inl e\<close> is the
  exception propagating to the caller.
\<close>

datatype exn = PyExc string string

text \<open>
  What \<open>stats.ks_2samp\<close> gives as p-value: a float that is a probability (the library
  clips it to [0,1]), nan, or, when a sample has more than one dimension, an array with one
  p-value per column. An array here has two elements at least; arrays of fewer are left out.
\<close>

typedef prob = "{x :: real. 0 \<le> x \<and> x \<le> 1}"
  morphisms prob_val Prob
  by (rule exI [of _ 0]) simp

datatype pvalue = PScalar prob | PNaN | PArray prob prob "prob list"

text \<open>A numpy number as the module computes with it: a float, nan, or such an array.\<close>

datatype score = Num real | NaN | Arr real real "real list"

text \<open>\<open>1.0 - p_value\<close>, elementwise on an array.\<close>

fun one_minus :: "pvalue \<Rightarrow> score" where
  "one_minus (PScalar p) = Num (1 - prob_val p)"
| "one_minus PNaN = NaN"
| "one_minus (PArray p q ps) =
     Arr (1 - prob_val p) (1 - prob_val q) (map (\<lambda>r. 1 - prob_val r) ps)"

text \<open>
  \<open>if value > bound:\<close> for a float \<open>bound\<close>. A comparison with nan is false. On an array
  the comparison is elementwise and the \<open>if\<close> raises \<open>ValueError\<close>.
\<close>

fun py_gt :: "score \<Rightarrow> real \<Rightarrow> exn + bool" where
  "py_gt (Num x) bound = Inr (x > bound)"
| "py_gt NaN bound = Inr False"
| "py_gt (Arr a b cs) bound =
     Inl (PyExc ''ValueError''
            ''The truth value of an array with more than one element is ambiguous'')"

datatype level = INFO | WARNING | ERROR

text \<open>One constructor per \<open>logger\<close> call of the module, with the values it formats.\<close>

datatype logmsg =
    Initialized string string
  | LoadedReference string
  | FailedLoadReference exn
  | TrainedAnomalyModel
  | FailedTrainAnomalyModel exn
  | FeatureDriftDetected string score
  | PredictionDriftDetected score
  | AnomaliesDetected score
  | FailedAnomalyScores exn
  | FailedPush exn
  | FailedLogMetrics exn
  | FailedDistributionDrift exn
  | GeneratedReport string
  | FailedReport exn

text \<open>The dict that \<open>detect_drift\<close> builds and returns.\<close>

record drift_metrics =
  m_timestamp :: string
  m_model_name :: string
  m_model_version :: string
  m_feature_drift :: "score pydict"
  m_prediction_drift :: score
  m_concept_drift :: score
  m_anomaly_score :: score

text \<open>The pieces \<open>generate_drift_report\<close> writes to the HTML file, in order.\<close>

datatype chunk =
    HtmlHead string string string
  | FeatureDiv string string score
  | PredictionDiv string score
  | AnomalyDiv string score
  | HtmlClose

text \<open>
  What the module changes outside the detector object: the records given to \<open>logger\<close>,
  the values set on Prometheus gauges (gauge name, label values, value), the lines appended
  to \<open>logs/<model>_drift.jsonl\<close>, the report files and the saved chart images.
  \<open>tick\<close> counts the calls made to the outside so far, so that the same call can have a
  different outcome the next time.
\<close>

record world =
  tick :: nat
  log_records :: "(level \<times> logmsg) list"
  gauges :: "(string \<times> string list \<times> score) list"
  jsonl :: "(string \<times> drift_metrics) list"
  reports :: "chunk list pydict"
  charts :: "string list"

text \<open>
  The libraries and the operating system, as parameters: each takes the tick of the call.
  A result \<open>Inl e\<close> (or \<open>Some e\<close> where the call returns nothing): the call raised \<open>e\<close>.
  \<open>ks_2samp\<close> returns the statistic and the p-value. \<open>score_samples\<close> is the method of an
  estimator fitted on the given columns. \<open>append_jsonl\<close> stands for \<open>open(path, "a")\<close>,
  \<open>json.dumps\<close> and \<open>f.write\<close>; \<open>plot_chart\<close> for the \<open>plt\<close>/\<open>sns\<close> calls of one
  chart. \<open>os_imported\<close> says whether the name \<open>os\<close> is bound in the module: its only
  \<open>import os\<close> is under \<open>if __name__ == "__main__":\<close>, so it is bound when the file runs
  as a script and not when a program imports the module.
\<close>

record env =
  now_isoformat :: "nat \<Rightarrow> string"
  now_strftime :: "nat \<Rightarrow> string \<Rightarrow> string"
  read_csv :: "nat \<Rightarrow> string \<Rightarrow> exn + pyval list pydict"
  new_gauge :: "nat \<Rightarrow> string \<Rightarrow> exn option"
  forest_fit :: "nat \<Rightarrow> pyval list pydict \<Rightarrow> exn option"
  ks_2samp :: "nat \<Rightarrow> pyval list \<Rightarrow> pyval list \<Rightarrow> exn + score \<times> pvalue"
  score_samples :: "nat \<Rightarrow> pyval list pydict \<Rightarrow> pyval list pydict \<Rightarrow> exn + real list"
  push_to_gateway :: "nat \<Rightarrow> string option \<Rightarrow> string \<Rightarrow> exn option"
  append_jsonl :: "nat \<Rightarrow> string \<Rightarrow> drift_metrics \<Rightarrow> exn option"
  file_open_w :: "nat \<Rightarrow> string \<Rightarrow> exn option"
  file_write :: "nat \<Rightarrow> string \<Rightarrow> chunk \<Rightarrow> exn option"
  os_imported :: bool
  makedirs :: "nat \<Rightarrow> string \<Rightarrow> exn option"
  plot_chart :: "nat \<Rightarrow> string \<Rightarrow> pyval list \<Rightarrow> pyval list \<Rightarrow> exn option"

definition step :: "world \<Rightarrow> world" where
  "step w = w\<lparr>tick := Suc (tick w)\<rparr>"

text \<open>\<open>logger.info/warning/error\<close> works on an object of the process and does not raise.\<close>

definition log_msg :: "level \<Rightarrow> logmsg \<Rightarrow> world \<Rightarrow> world" where
  "log_msg lvl m w = w\<lparr>log_records := log_records w @ [(lvl, m)]\<rparr>"

text \<open>
  \<open>gauge.labels(...).set(value)\<close> stores \<open>float(value)\<close>, which raises \<open>TypeError\<close> for an
  array of more than one element.
\<close>

fun gauge_set :: "string \<Rightarrow> string list \<Rightarrow> score \<Rightarrow> world \<Rightarrow> (exn + unit) \<times> world" where
  "gauge_set name labels (Arr a b cs) w =
     (Inl (PyExc ''TypeError'' ''only length-1 arrays can be converted to Python scalars''), w)"
| "gauge_set name labels v w = (Inr (), w\<lparr>gauges := gauges w @ [(name, labels, v)]\<rparr>)"

section \<open>Python list slicing\<close>

text \<open>
  \<open>xs[start:]\<close> as Python computes it: a negative \<open>start\<close> counts from the end and is
  clipped at 0, a non-negative one is clipped at \<open>len(xs)\<close>. In particular \<open>xs[-0:]\<close> is
  \<open>xs[0:]\<close>, the whole list.
\<close>

definition py_slice_from :: "int \<Rightarrow> 'a list \<Rightarrow> 'a list" where
  "py_slice_from start xs =
     (let n = int (length xs);
          s = (if start < 0 then max 0 (start + n) else min start n)
      in drop (nat s) xs)"

section \<open>Trimming the current window\<close>

text \<open>
  \<^verbatim>\<open>
  def _reset_current_data(self):
      buffer_size = min(100, self.window_size // 10)
      for feature_name in self.current_features:
          if len(self.current_features[feature_name]) > buffer_size:
              self.current_features[feature_name] = self.current_features[feature_name][-buffer_size:]
          else:
              self.current_features[feature_name] = []
      if len(self.current_predictions) > buffer_size:
          self.current_predictions = self.current_predictions[-buffer_size:]
      else:
          self.current_predictions = []
  \<close>
  Python's \<open>//\<close> is floor division, as \<open>div\<close> on \<open>int\<close> is.
\<close>

definition buffer_size :: "detector \<Rightarrow> int" where
  "buffer_size d = min 100 (window_size d div 10)"

text \<open>The body applied to one sequence (the same \<open>if\<close>/\<open>else\<close> in both places).\<close>

definition trim_seq :: "int \<Rightarrow> 'a list \<Rightarrow> 'a list" where
  "trim_seq b xs = (if int (length xs) > b then py_slice_from (- b) xs else [])"

definition reset_current_data :: "detector \<Rightarrow> detector" where
  "reset_current_data d =
     (let b = buffer_size d
      in d\<lparr>current_features := map (\<lambda>(name, xs). (name, trim_seq b xs)) (current_features d),
           current_predictions := trim_seq b (current_predictions d)\<rparr>)"

section \<open>Observations\<close>

text \<open>\<open>isinstance(feature_value, (int, float))\<close>: \<open>bool\<close> is a subclass of \<open>int\<close>.\<close>

fun isinstance_int_float :: "pyval \<Rightarrow> bool" where
  "isinstance_int_float (PInt i) = True"
| "isinstance_int_float (PFloat x) = True"
| "isinstance_int_float (PBool b) = True"
| "isinstance_int_float (PNpFloat64 x) = True"
| "isinstance_int_float v = False"

text \<open>
  \<^verbatim>\<open>
  for feature_name, feature_value in features.items():
      if isinstance(feature_value, (int, float)):
          if feature_name in self.current_features:
              self.current_features[feature_name].append(feature_value)
          else:
              self.current_features[feature_name] = [feature_value]
  \<close>
\<close>

fun add_features :: "pyval pydict \<Rightarrow> pyval list pydict \<Rightarrow> pyval list pydict" where
  "add_features [] cf = cf"
| "add_features ((feature_name, feature_value) # rest) cf =
     add_features rest
       (if isinstance_int_float feature_value then
          (case map_of cf feature_name of
             Some xs \<Rightarrow> dict_set cf feature_name (xs @ [feature_value])
           | None \<Rightarrow> dict_set cf feature_name [feature_value])
        else cf)"

text \<open>
  The first half of \<open>add_observation\<close> (the feature loop and
  \<open>self.current_predictions.append(prediction)\<close>), before the readiness check.
\<close>

definition record_observation :: "pyval pydict \<Rightarrow> pyval \<Rightarrow> detector \<Rightarrow> detector" where
  "record_observation features prediction d =
     d\<lparr>current_features := add_features features (current_features d),
       current_predictions := current_predictions d @ [prediction]\<rparr>"

section \<open>Scoring\<close>

text \<open>
  \<^verbatim>\<open>
  def _calculate_distribution_drift(self, reference_values, current_values):
      try:
          ks_stat, p_value = stats.ks_2samp(reference_values, current_values)
          drift_score = 1.0 - p_value
          return drift_score
      except Exception as e:
          logger.error(f"Failed to calculate distribution drift: {e}")
          return 0.0
  \<close>
\<close>

definition calculate_distribution_drift ::
  "env \<Rightarrow> pyval list \<Rightarrow> pyval list \<Rightarrow> world \<Rightarrow> (exn + score) \<times> world" where
  "calculate_distribution_drift E reference_values current_values w =
     (case ks_2samp E (tick w) reference_values current_values of
        Inr (ks_stat, p_value) \<Rightarrow> (Inr (one_minus p_value), step w)
      | Inl e \<Rightarrow> (Inr (Num 0), log_msg ERROR (FailedDistributionDrift e) (step w)))"

text \<open>
  The feature loop of \<open>detect_drift\<close>, over \<open>self.current_features.items()\<close>; the
  accumulator is \<open>drift_metrics["feature_drift"]\<close>. Nothing in the loop is inside a
  \<open>try\<close>: an exception of \<open>_calculate_distribution_drift\<close>, of the gauge update or of
  \<open>if drift_score > self.drift_threshold\<close> leaves the loop and the function.
\<close>

fun feature_drift_loop ::
  "env \<Rightarrow> detector \<Rightarrow> pyval list pydict \<Rightarrow> score pydict \<Rightarrow> world
     \<Rightarrow> (exn + score pydict) \<times> world" where
  "feature_drift_loop E d [] fd w = (Inr fd, w)"
| "feature_drift_loop E d ((feature_name, current_values) # rest) fd w =
     (case map_of (reference_features d) feature_name of
        None \<Rightarrow> feature_drift_loop E d rest fd w
      | Some reference_values \<Rightarrow>
          if length current_values > 0 then
            (case calculate_distribution_drift E reference_values current_values w of
               (Inl e, w1) \<Rightarrow> (Inl e, w1)
             | (Inr drift_score, w1) \<Rightarrow>
            (case (if metrics_store d = ''prometheus''
                   then gauge_set ''model_feature_drift''
                          [model_name d, model_version d, feature_name] drift_score w1
                   else (Inr (), w1)) of
               (Inl e, w2) \<Rightarrow> (Inl e, w2)
             | (Inr u, w2) \<Rightarrow>
            (case py_gt drift_score (drift_threshold d) of
               Inl e \<Rightarrow> (Inl e, w2)
             | Inr significant \<Rightarrow>
                 feature_drift_loop E d rest (dict_set fd feature_name drift_score)
                   (if significant
                    then log_msg WARNING (FeatureDriftDetected feature_name drift_score) w2
                    else w2))))
          else feature_drift_loop E d rest fd w)"

text \<open>
  The prediction block of \<open>detect_drift\<close> (lines 217 to 233), none of it inside a
  \<open>try\<close>; the result is \<open>drift_metrics["prediction_drift"]\<close>.
\<close>

definition prediction_drift_block :: "env \<Rightarrow> detector \<Rightarrow> world \<Rightarrow> (exn + score) \<times> world" where
  "prediction_drift_block E d w =
     (if length (reference_predictions d) > 0 \<and> length (current_predictions d) > 0 then
        (case calculate_distribution_drift E (reference_predictions d) (current_predictions d) w of
           (Inl e, w1) \<Rightarrow> (Inl e, w1)
         | (Inr prediction_drift, w1) \<Rightarrow>
        (case (if metrics_store d = ''prometheus''
               then gauge_set ''model_prediction_drift''
                      [model_name d, model_version d] prediction_drift w1
               else (Inr (), w1)) of
           (Inl e, w2) \<Rightarrow> (Inl e, w2)
         | (Inr u, w2) \<Rightarrow>
        (case py_gt prediction_drift (drift_threshold d) of
           Inl e \<Rightarrow> (Inl e, w2)
         | Inr significant \<Rightarrow>
             (Inr prediction_drift,
              if significant then log_msg WARNING (PredictionDriftDetected prediction_drift) w2
              else w2))))
      else (Inr (Num 0), w))"

text \<open>
  The columns given to the anomaly model:
  \<^verbatim>\<open>
  {feature_name: current_values[-self.window_size:]
   for feature_name, current_values in self.current_features.items()
   if len(current_values) >= self.window_size}
  \<close>
\<close>

definition anomaly_matrix :: "detector \<Rightarrow> pyval list pydict" where
  "anomaly_matrix d =
     map (\<lambda>(feature_name, current_values).
            (feature_name, py_slice_from (- window_size d) current_values))
         (filter (\<lambda>(feature_name, current_values).
                    int (length current_values) \<ge> window_size d)
                 (current_features d))"

text \<open>\<open>pd.DataFrame\<close> of a dict of lists raises \<open>ValueError\<close> when their lengths differ.\<close>

fun same_lengths :: "pyval list pydict \<Rightarrow> bool" where
  "same_lengths [] = True"
| "same_lengths [(name, xs)] = True"
| "same_lengths ((name, xs) # (name', ys) # rest) =
     (length xs = length ys \<and> same_lengths ((name', ys) # rest))"

text \<open>\<open>np.mean(anomaly_scores) * -1\<close>; the mean of an empty array is nan.\<close>

definition neg_mean :: "real list \<Rightarrow> score" where
  "neg_mean xs = (if xs = [] then NaN else Num (sum_list xs / real (length xs) * - 1))"

text \<open>
  The body of the \<open>try\<close> of the anomaly block. The second component is
  \<open>drift_metrics["anomaly_score"]\<close> when the body ends or raises: it is assigned before the
  gauge update and the comparison with 0.7. \<open>score_samples\<close> of an estimator whose
  \<open>fit\<close> did not complete raises \<open>NotFittedError\<close>.
\<close>

definition anomaly_try ::
  "env \<Rightarrow> detector \<Rightarrow> forest \<Rightarrow> world \<Rightarrow> (exn + unit) \<times> score \<times> world" where
  "anomaly_try E d forest w =
     (if \<not> same_lengths (anomaly_matrix d) then
        (Inl (PyExc ''ValueError'' ''All arrays must be of the same length''), Num 0, w)
      else
        (case forest of
           Unfitted \<Rightarrow>
             (Inl (PyExc ''NotFittedError'' ''This IsolationForest instance is not fitted yet''),
              Num 0, w)
         | Fitted reference_columns \<Rightarrow>
        (case score_samples E (tick w) reference_columns (anomaly_matrix d) of
           Inl e \<Rightarrow> (Inl e, Num 0, step w)
         | Inr anomaly_scores \<Rightarrow>
        (let avg_anomaly_score = neg_mean anomaly_scores
         in case (if metrics_store d = ''prometheus''
                  then gauge_set ''model_anomaly_score''
                         [model_name d, model_version d] avg_anomaly_score (step w)
                  else (Inr (), step w)) of
              (Inl e, w2) \<Rightarrow> (Inl e, avg_anomaly_score, w2)
            | (Inr u, w2) \<Rightarrow>
           (case py_gt avg_anomaly_score 0.7 of
              Inl e \<Rightarrow> (Inl e, avg_anomaly_score, w2)
            | Inr anomalous \<Rightarrow>
                (Inr (), avg_anomaly_score,
                 if anomalous then log_msg WARNING (AnomaliesDetected avg_anomaly_score) w2
                 else w2))))))"

text \<open>
  The anomaly block of \<open>detect_drift\<close>: \<open>if self.isolation_forest is not None\<close>, the
  \<open>try\<close> above with \<open>except Exception\<close> logging the error.
\<close>

definition anomaly_block :: "env \<Rightarrow> detector \<Rightarrow> world \<Rightarrow> (exn + score) \<times> world" where
  "anomaly_block E d w =
     (case isolation_forest d of
        None \<Rightarrow> (Inr (Num 0), w)
      | Some forest \<Rightarrow>
          (case anomaly_try E d forest w of
             (Inl e, a, w1) \<Rightarrow> (Inr a, log_msg ERROR (FailedAnomalyScores e) w1)
           | (Inr u, a, w1) \<Rightarrow> (Inr a, w1)))"

text \<open>The push block: \<open>push_to_gateway\<close> inside \<open>try\<close>, when the store is Prometheus.\<close>

definition push_block :: "env \<Rightarrow> detector \<Rightarrow> world \<Rightarrow> (exn + unit) \<times> world" where
  "push_block E d w =
     (if metrics_store d = ''prometheus'' then
        (case push_to_gateway E (tick w) (push_gateway_url d)
                (model_name d @ ''_'' @ model_version d @ ''_drift'') of
           None \<Rightarrow> (Inr (), step w)
         | Some e \<Rightarrow> (Inr (), log_msg ERROR (FailedPush e) (step w)))
      else (Inr (), w))"

text \<open>
  \<^verbatim>\<open>
  def _log_drift_metrics(self, drift_metrics):
      try:
          with open(f"logs/{self.model_name}_drift.jsonl", "a") as f:
              f.write(json.dumps(drift_metrics) + "\n")
      except Exception as e:
          logger.error(f"Failed to log drift metrics: {e}")
  \<close>
\<close>

definition log_drift_metrics ::
  "env \<Rightarrow> detector \<Rightarrow> drift_metrics \<Rightarrow> world \<Rightarrow> (exn + unit) \<times> world" where
  "log_drift_metrics E d m w =
     (let path = ''logs/'' @ model_name d @ ''_drift.jsonl''
      in case append_jsonl E (tick w) path m of
           None \<Rightarrow> (Inr (), (step w)\<lparr>jsonl := jsonl w @ [(path, m)]\<rparr>)
         | Some e \<Rightarrow> (Inr (), log_msg ERROR (FailedLogMetrics e) (step w)))"

section \<open>The drift check\<close>

text \<open>
  \<open>detect_drift\<close>: the metrics dict with its defaults, the feature loop, the prediction
  block, the anomaly block, the push, the JSON log line, then
  \<open>self._reset_current_data()\<close> and \<open>return drift_metrics\<close>. An exception of a call that
  is not inside a \<open>try\<close> ends the function there, with the state as it is.
\<close>

definition detect_drift ::
  "env \<Rightarrow> detector \<Rightarrow> world \<Rightarrow> (exn + drift_metrics) \<times> detector \<times> world" where
  "detect_drift E d w =
     (let m0 = \<lparr>m_timestamp = now_isoformat E (tick w),
                m_model_name = model_name d,
                m_model_version = model_version d,
                m_feature_drift = [],
                m_prediction_drift = Num 0,
                m_concept_drift = Num 0,
                m_anomaly_score = Num 0\<rparr>
      in case feature_drift_loop E d (current_features d) [] (step w) of
           (Inl e, w1) \<Rightarrow> (Inl e, d, w1)
         | (Inr fd, w1) \<Rightarrow>
        (case prediction_drift_block E d w1 of
           (Inl e, w2) \<Rightarrow> (Inl e, d, w2)
         | (Inr pd, w2) \<Rightarrow>
        (case anomaly_block E d w2 of
           (Inl e, w3) \<Rightarrow> (Inl e, d, w3)
         | (Inr a, w3) \<Rightarrow>
        (case push_block E d w3 of
           (Inl e, w4) \<Rightarrow> (Inl e, d, w4)
         | (Inr u, w4) \<Rightarrow>
        (let m = m0\<lparr>m_feature_drift := fd, m_prediction_drift := pd, m_anomaly_score := a\<rparr>
         in case log_drift_metrics E d m w4 of
              (Inl e, w5) \<Rightarrow> (Inl e, d, w5)
            | (Inr u', w5) \<Rightarrow> (Inr m, reset_current_data d, w5))))))"

text \<open>
  \<^verbatim>\<open>
  def add_observation(self, features, prediction, ground_truth=None):
      ...                                  # record_observation
      if len(self.current_predictions) >= self.window_size:
          self.detect_drift()
  \<close>
  The result of \<open>detect_drift\<close> is dropped; \<open>ground_truth\<close> is not used.
\<close>

definition add_observation ::
  "env \<Rightarrow> pyval pydict \<Rightarrow> pyval \<Rightarrow> pyval option \<Rightarrow> detector \<Rightarrow> world
     \<Rightarrow> (exn + unit) \<times> detector \<times> world" where
  "add_observation E features prediction ground_truth d w =
     (let d1 = record_observation features prediction d
      in if int (length (current_predictions d1)) \<ge> window_size d1 then
           (case detect_drift E d1 w of
              (Inl e, d2, w2) \<Rightarrow> (Inl e, d2, w2)
            | (Inr m, d2, w2) \<Rightarrow> (Inr (), d2, w2))
        else (Inr (), d1, w))"

section \<open>Initialisation and the reference data\<close>

text \<open>
  \<open>_train_anomaly_detector\<close>: the estimator is assigned, then fitted, inside a \<open>try\<close>
  that logs any exception.
\<close>

definition train_anomaly_detector ::
  "env \<Rightarrow> pyval list pydict \<Rightarrow> detector \<Rightarrow> world \<Rightarrow> (exn + unit) \<times> detector \<times> world" where
  "train_anomaly_detector E reference_columns d w =
     (case forest_fit E (tick w) reference_columns of
        None \<Rightarrow> (Inr (), d\<lparr>isolation_forest := Some (Fitted reference_columns)\<rparr>,
                 log_msg INFO TrainedAnomalyModel (step w))
      | Some e \<Rightarrow> (Inr (), d\<lparr>isolation_forest := Some Unfitted\<rparr>,
                   log_msg ERROR (FailedTrainAnomalyModel e) (step w)))"

text \<open>The loop \<open>for col in feature_columns\<close> of \<open>_load_reference_data\<close>.\<close>

fun load_columns :: "pyval list pydict \<Rightarrow> detector \<Rightarrow> detector" where
  "load_columns [] d = d"
| "load_columns ((col, vals) # rest) d =
     load_columns rest
       (d\<lparr>reference_features := dict_set (reference_features d) col vals,
          current_features := dict_set (current_features d) col []\<rparr>)"

text \<open>
  \<^verbatim>\<open>
  def _load_reference_data(self, reference_data_path):
      try:
          data = pd.read_csv(reference_data_path)
          feature_columns = [col for col in data.columns if col != 'prediction']
          for col in feature_columns: ...
          if 'prediction' in data.columns:
              self.reference_predictions = data['prediction'].values
          self._train_anomaly_detector(data[feature_columns])
          logger.info(f"Loaded reference data from {reference_data_path}")
      except Exception as e:
          logger.error(f"Failed to load reference data: {e}")
  \<close>
\<close>

definition load_reference_data ::
  "env \<Rightarrow> string \<Rightarrow> detector \<Rightarrow> world \<Rightarrow> (exn + unit) \<times> detector \<times> world" where
  "load_reference_data E path d w =
     (case read_csv E (tick w) path of
        Inl e \<Rightarrow> (Inr (), d, log_msg ERROR (FailedLoadReference e) (step w))
      | Inr data \<Rightarrow>
          let feature_columns = filter (\<lambda>(col, vals). col \<noteq> ''prediction'') data;
              d1 = load_columns feature_columns d;
              d2 = (case map_of data ''prediction'' of
                      Some vals \<Rightarrow> d1\<lparr>reference_predictions := vals\<rparr>
                    | None \<Rightarrow> d1)
          in case train_anomaly_detector E feature_columns d2 (step w) of
               (Inl e, d3, w3) \<Rightarrow> (Inr (), d3, log_msg ERROR (FailedLoadReference e) w3)
             | (Inr u, d3, w3) \<Rightarrow> (Inr (), d3, log_msg INFO (LoadedReference path) w3))"

text \<open>
  \<open>_init_prometheus_metrics\<close>: four \<open>Gauge\<close> constructions in a row, none inside a
  \<open>try\<close> (the constructor registers the gauge and raises on a duplicate name).
\<close>

fun new_gauges :: "env \<Rightarrow> string list \<Rightarrow> world \<Rightarrow> (exn + unit) \<times> world" where
  "new_gauges E [] w = (Inr (), w)"
| "new_gauges E (name # names) w =
     (case new_gauge E (tick w) name of
        Some e \<Rightarrow> (Inl e, step w)
      | None \<Rightarrow> new_gauges E names (step w))"

definition init_prometheus_metrics :: "env \<Rightarrow> world \<Rightarrow> (exn + unit) \<times> world" where
  "init_prometheus_metrics E w =
     new_gauges E [''model_feature_drift'', ''model_prediction_drift'',
                   ''model_concept_drift'', ''model_anomaly_score''] w"

text \<open>
  \<open>DriftDetector.__init__\<close>. \<open>if reference_data_path:\<close> is false for \<open>None\<close> and for the
  empty string.
\<close>

definition DriftDetector_init ::
  "env \<Rightarrow> string \<Rightarrow> string \<Rightarrow> string option \<Rightarrow> string \<Rightarrow> string option \<Rightarrow> real \<Rightarrow> int
     \<Rightarrow> world \<Rightarrow> (exn + unit) \<times> detector \<times> world" where
  "DriftDetector_init E name version ref_path store url threshold wsize w =
     (let d = \<lparr>model_name = name, model_version = version, reference_data_path = ref_path,
               metrics_store = store, push_gateway_url = url, drift_threshold = threshold,
               window_size = wsize, reference_features = [], reference_predictions = [],
               current_features = [], current_predictions = [], isolation_forest = None\<rparr>
      in case (if store = ''prometheus'' then init_prometheus_metrics E w else (Inr (), w)) of
           (Inl e, w1) \<Rightarrow> (Inl e, d, w1)
         | (Inr u, w1) \<Rightarrow>
        (case (case ref_path of
                 None \<Rightarrow> (Inr (), d, w1)
               | Some path \<Rightarrow> if path = [] then (Inr (), d, w1)
                              else load_reference_data E path d w1) of
           (Inl e, d2, w2) \<Rightarrow> (Inl e, d2, w2)
         | (Inr u', d2, w2) \<Rightarrow> (Inr (), d2, log_msg INFO (Initialized name version) w2)))"

section \<open>The report\<close>

text \<open>
  \<^verbatim>\<open>
  drift_class = "drift-low"
  if drift_score > self.drift_threshold:
      drift_class = "drift-high"
  elif drift_score > self.drift_threshold / 2:
      drift_class = "drift-medium"
  \<close>
\<close>

definition drift_class :: "real \<Rightarrow> score \<Rightarrow> exn + string" where
  "drift_class threshold drift_score =
     (case py_gt drift_score threshold of
        Inl e \<Rightarrow> Inl e
      | Inr high \<Rightarrow>
          if high then Inr ''drift-high''
          else (case py_gt drift_score (threshold / 2) of
                  Inl e \<Rightarrow> Inl e
                | Inr medium \<Rightarrow> if medium then Inr ''drift-medium'' else Inr ''drift-low''))"

definition anomaly_class :: "score \<Rightarrow> exn + string" where
  "anomaly_class anomaly_score =
     (case py_gt anomaly_score 0.7 of
        Inl e \<Rightarrow> Inl e
      | Inr high \<Rightarrow>
          if high then Inr ''drift-high''
          else (case py_gt anomaly_score 0.5 of
                  Inl e \<Rightarrow> Inl e
                | Inr medium \<Rightarrow> if medium then Inr ''drift-medium'' else Inr ''drift-low''))"

text \<open>\<open>open(report_path, "w")\<close> creates or empties the file; \<open>f.write\<close> appends to it.\<close>

definition f_open_w :: "env \<Rightarrow> string \<Rightarrow> world \<Rightarrow> (exn + unit) \<times> world" where
  "f_open_w E path w =
     (case file_open_w E (tick w) path of
        Some e \<Rightarrow> (Inl e, step w)
      | None \<Rightarrow> (Inr (), (step w)\<lparr>reports := dict_set (reports w) path []\<rparr>))"

definition f_write :: "env \<Rightarrow> string \<Rightarrow> chunk \<Rightarrow> world \<Rightarrow> (exn + unit) \<times> world" where
  "f_write E path c w =
     (case file_write E (tick w) path c of
        Some e \<Rightarrow> (Inl e, step w)
      | None \<Rightarrow>
          (Inr (), (step w)\<lparr>reports :=
             dict_set (reports w) path
               ((case map_of (reports w) path of None \<Rightarrow> [] | Some cs \<Rightarrow> cs) @ [c])\<rparr>))"

text \<open>The loop over \<open>self.detect_drift()["feature_drift"].items()\<close>.\<close>

fun write_feature_divs ::
  "env \<Rightarrow> detector \<Rightarrow> string \<Rightarrow> score pydict \<Rightarrow> world \<Rightarrow> (exn + unit) \<times> world" where
  "write_feature_divs E d path [] w = (Inr (), w)"
| "write_feature_divs E d path ((feature_name, drift_score) # rest) w =
     (case drift_class (drift_threshold d) drift_score of
        Inl e \<Rightarrow> (Inl e, w)
      | Inr cls \<Rightarrow>
     (case f_write E path (FeatureDiv feature_name cls drift_score) w of
        (Inl e, w1) \<Rightarrow> (Inl e, w1)
      | (Inr u, w1) \<Rightarrow> write_feature_divs E d path rest w1))"

text \<open>
  The block \<open>with open(report_path, "w") as f\<close>: the head, then three calls of
  \<open>self.detect_drift()\<close>, each followed by the writes of what it returned, then the
  closing tags.
\<close>

definition report_html ::
  "env \<Rightarrow> detector \<Rightarrow> string \<Rightarrow> world \<Rightarrow> (exn + unit) \<times> detector \<times> world" where
  "report_html E d path w =
     (case f_open_w E path w of
        (Inl e, w1) \<Rightarrow> (Inl e, d, w1)
      | (Inr u1, w1) \<Rightarrow>
     (case f_write E path
             (HtmlHead (model_name d) (model_version d)
                (now_strftime E (tick w1) ''%Y-%m-%d %H:%M:%S'')) (step w1) of
        (Inl e, w2) \<Rightarrow> (Inl e, d, w2)
      | (Inr u2, w2) \<Rightarrow>
     (case detect_drift E d w2 of
        (Inl e, d3, w3) \<Rightarrow> (Inl e, d3, w3)
      | (Inr m3, d3, w3) \<Rightarrow>
     (case write_feature_divs E d3 path (m_feature_drift m3) w3 of
        (Inl e, w4) \<Rightarrow> (Inl e, d3, w4)
      | (Inr u4, w4) \<Rightarrow>
     (case detect_drift E d3 w4 of
        (Inl e, d5, w5) \<Rightarrow> (Inl e, d5, w5)
      | (Inr m5, d5, w5) \<Rightarrow>
     (case drift_class (drift_threshold d5) (m_prediction_drift m5) of
        Inl e \<Rightarrow> (Inl e, d5, w5)
      | Inr pcls \<Rightarrow>
     (case f_write E path (PredictionDiv pcls (m_prediction_drift m5)) w5 of
        (Inl e, w6) \<Rightarrow> (Inl e, d5, w6)
      | (Inr u6, w6) \<Rightarrow>
     (case detect_drift E d5 w6 of
        (Inl e, d7, w7) \<Rightarrow> (Inl e, d7, w7)
      | (Inr m7, d7, w7) \<Rightarrow>
     (case anomaly_class (m_anomaly_score m7) of
        Inl e \<Rightarrow> (Inl e, d7, w7)
      | Inr acls \<Rightarrow>
     (case f_write E path (AnomalyDiv acls (m_anomaly_score m7)) w7 of
        (Inl e, w8) \<Rightarrow> (Inl e, d7, w8)
      | (Inr u8, w8) \<Rightarrow>
     (case f_write E path HtmlClose w8 of
        (Inl e, w9) \<Rightarrow> (Inl e, d7, w9)
      | (Inr u9, w9) \<Rightarrow> (Inr (), d7, w9))))))))))))"

text \<open>One chart: \<open>plt.figure\<close>, two \<open>sns.kdeplot\<close>, \<open>plt.savefig\<close>, \<open>plt.close\<close>.\<close>

definition save_chart ::
  "env \<Rightarrow> string \<Rightarrow> pyval list \<Rightarrow> pyval list \<Rightarrow> world \<Rightarrow> (exn + unit) \<times> world" where
  "save_chart E path reference_values current_values w =
     (case plot_chart E (tick w) path reference_values current_values of
        Some e \<Rightarrow> (Inl e, step w)
      | None \<Rightarrow> (Inr (), (step w)\<lparr>charts := charts w @ [path]\<rparr>))"

text \<open>The loop \<open>for feature_name in self.current_features\<close> that draws the feature charts.\<close>

fun plot_feature_charts ::
  "env \<Rightarrow> detector \<Rightarrow> string \<Rightarrow> pyval list pydict \<Rightarrow> world \<Rightarrow> (exn + unit) \<times> world" where
  "plot_feature_charts E d output_path [] w = (Inr (), w)"
| "plot_feature_charts E d output_path ((feature_name, current_values) # rest) w =
     (case map_of (reference_features d) feature_name of
        None \<Rightarrow> plot_feature_charts E d output_path rest w
      | Some reference_values \<Rightarrow>
          (case save_chart E (output_path @ ''/charts/'' @ feature_name @ ''_distribution.png'')
                  reference_values current_values w of
             (Inl e, w1) \<Rightarrow> (Inl e, w1)
           | (Inr u, w1) \<Rightarrow> plot_feature_charts E d output_path rest w1))"

text \<open>
  \<open>os.makedirs(f"{output_path}/charts", exist_ok=True)\<close> (line 430): looking up the name
  \<open>os\<close> raises \<open>NameError\<close> when the module was imported.
\<close>

definition os_makedirs :: "env \<Rightarrow> string \<Rightarrow> world \<Rightarrow> (exn + unit) \<times> world" where
  "os_makedirs E path w =
     (if \<not> os_imported E then (Inl (PyExc ''NameError'' ''name os is not defined''), w)
      else (case makedirs E (tick w) path of
              Some e \<Rightarrow> (Inl e, step w)
            | None \<Rightarrow> (Inr (), step w)))"

text \<open>The body of the \<open>try\<close> of \<open>generate_drift_report\<close>, up to \<open>return report_path\<close>.\<close>

definition report_body ::
  "env \<Rightarrow> detector \<Rightarrow> string \<Rightarrow> string \<Rightarrow> world \<Rightarrow> (exn + string) \<times> detector \<times> world" where
  "report_body E d output_path report_path w =
     (case report_html E d report_path w of
        (Inl e, d1, w1) \<Rightarrow> (Inl e, d1, w1)
      | (Inr u1, d1, w1) \<Rightarrow>
     (case os_makedirs E (output_path @ ''/charts'') w1 of
        (Inl e, w1') \<Rightarrow> (Inl e, d1, w1')
      | (Inr u1', w1') \<Rightarrow>
     (case plot_feature_charts E d1 output_path (current_features d1) w1' of
        (Inl e, w2) \<Rightarrow> (Inl e, d1, w2)
      | (Inr u2, w2) \<Rightarrow>
     (case save_chart E (output_path @ ''/charts/prediction_distribution.png'')
             (reference_predictions d1) (current_predictions d1) w2 of
        (Inl e, w3) \<Rightarrow> (Inl e, d1, w3)
      | (Inr u3, w3) \<Rightarrow>
          (Inr report_path, d1, log_msg INFO (GeneratedReport report_path) w3)))))"

text \<open>
  \<^verbatim>\<open>
  def generate_drift_report(self, output_path="reports"):
      timestamp = datetime.now().strftime("%Y%m%d_%H%M%S")
      report_path = f"{output_path}/{self.model_name}_drift_report_{timestamp}.html"
      try:
          ...                              # report_body
          return report_path
      except Exception as e:
          logger.error(f"Failed to generate drift report: {e}")
          return ""
  \<close>
\<close>

definition report_path_of :: "env \<Rightarrow> string \<Rightarrow> detector \<Rightarrow> world \<Rightarrow> string" where
  "report_path_of E output_path d w =
     output_path @ ''/'' @ model_name d @ ''_drift_report_''
       @ now_strftime E (tick w) ''%Y%m%d_%H%M%S'' @ ''.html''"

definition generate_drift_report ::
  "env \<Rightarrow> string \<Rightarrow> detector \<Rightarrow> world \<Rightarrow> (exn + string) \<times> detector \<times> world" where
  "generate_drift_report E output_path d w =
     (case report_body E d output_path (report_path_of E output_path d w) (step w) of
        (Inl e, d1, w1) \<Rightarrow> (Inr [], d1, log_msg ERROR (FailedReport e) w1)
      | (Inr p, d1, w1) \<Rightarrow> (Inr p, d1, w1))"

section \<open>The specification's vocabulary\<close>

text \<open>
  \<open>is_ready\<close> as the specification words it (section 4.2): true when the
  prediction-sequence length is at least the configured window size. The source has no
  function of that name; \<open>add_observation\<close> tests the condition inline.
\<close>

definition is_ready :: "detector \<Rightarrow> bool" where
  "is_ready d = (int (length (current_predictions d)) \<ge> window_size d)"

text \<open>
  A numeric value in the sense of Python's \<open>numbers.Number\<close>: the built-in numbers
  (\<open>bool\<close> among them) and the numpy scalars.
\<close>

fun numeric :: "pyval \<Rightarrow> bool" where
  "numeric (PBool b) = True"
| "numeric (PInt i) = True"
| "numeric (PFloat x) = True"
| "numeric (PNpFloat64 x) = True"
| "numeric (PNpInt64 i) = True"
| "numeric v = False"

text \<open>The sequence stored under a feature name, empty when the name is absent.\<close>

definition feature_seq :: "pyval list pydict \<Rightarrow> string \<Rightarrow> pyval list" where
  "feature_seq cf name = (case map_of cf name of None \<Rightarrow> [] | Some xs \<Rightarrow> xs)"

section \<open>Concrete inputs\<close>

text \<open>
  A detector without reference data, as \<open>__init__\<close> leaves it when no path is given and
  the metrics store is not Prometheus, with a given window size and current window.
\<close>

definition sample_detector :: "int \<Rightarrow> pyval list pydict \<Rightarrow> pyval list \<Rightarrow> detector" where
  "sample_detector wsize cf cp =
     \<lparr>model_name = ''example_model'', model_version = ''1.0.0'', reference_data_path = None,
      metrics_store = ''local'', push_gateway_url = Some ''localhost:9091'',
      drift_threshold = 0.05, window_size = wsize, reference_features = [],
      reference_predictions = [], current_features = cf, current_predictions = cp,
      isolation_forest = None\<rparr>"


definition world0 :: world where
  "world0 = \<lparr>tick = 0, log_records = [], gauges = [], jsonl = [], reports = [], charts = []\<rparr>"

text \<open>
  An outside where every call succeeds (the module running as a script), and one where
  every call raises.
\<close>

definition quiet_env :: env where
  "quiet_env =
     \<lparr>now_isoformat = (\<lambda>t. ''2024-01-01T00:00:00''),
      now_strftime = (\<lambda>t fmt. ''20240101_000000''),
      read_csv = (\<lambda>t path. Inr [(''x'', [PFloat 0, PFloat 1]), (''prediction'', [PFloat 1])]),
      new_gauge = (\<lambda>t name. None),
      forest_fit = (\<lambda>t cols. None),
      ks_2samp = (\<lambda>t r c. Inr (Num (1 / 4), PScalar (Prob (1 / 2)))),
      score_samples = (\<lambda>t f m. if m = [] then Inl (PyExc ''ValueError'' ''empty'') else Inr [- 1 / 2]),
      push_to_gateway = (\<lambda>t url job. None),
      append_jsonl = (\<lambda>t path m. None),
      file_open_w = (\<lambda>t path. None),
      file_write = (\<lambda>t path c. None),
      os_imported = True,
      makedirs = (\<lambda>t path. None),
      plot_chart = (\<lambda>t path r c. None)\<rparr>"

definition failing_env :: env where
  "failing_env =
     \<lparr>now_isoformat = (\<lambda>t. ''2024-01-01T00:00:00''),
      now_strftime = (\<lambda>t fmt. ''20240101_000000''),
      read_csv = (\<lambda>t path. Inl (PyExc ''FileNotFoundError'' path)),
      new_gauge = (\<lambda>t name. Some (PyExc ''ValueError'' ''Duplicated timeseries'')),
      forest_fit = (\<lambda>t cols. Some (PyExc ''ValueError'' ''fit'')),
      ks_2samp = (\<lambda>t r c. Inl (PyExc ''ValueError'' ''ks_2samp'')),
      score_samples = (\<lambda>t f m. Inl (PyExc ''ValueError'' ''score_samples'')),
      push_to_gateway = (\<lambda>t url job. Some (PyExc ''URLError'' ''Connection refused'')),
      append_jsonl = (\<lambda>t path m. Some (PyExc ''FileNotFoundError'' path)),
      file_open_w = (\<lambda>t path. Some (PyExc ''FileNotFoundError'' path)),
      file_write = (\<lambda>t path c. Some (PyExc ''OSError'' path)),
      os_imported = False,
      makedirs = (\<lambda>t path. Some (PyExc ''OSError'' path)),
      plot_chart = (\<lambda>t path r c. Some (PyExc ''ValueError'' ''plot''))\<rparr>"

text \<open>
  The two-sample test on the kinds of sample the detector can hold. Sorting a sample with
  \<open>None\<close> in it raises \<open>TypeError\<close>; an empty sample gives nan; a current sample of
  lists (predictions that are vectors of two numbers) is a matrix and gives one p-value per
  column; samples of numbers give one p-value.
\<close>

fun has_none :: "pyval list \<Rightarrow> bool" where
  "has_none [] = False"
| "has_none (PNone # xs) = True"
| "has_none (x # xs) = has_none xs"

fun has_list :: "pyval list \<Rightarrow> bool" where
  "has_list [] = False"
| "has_list (PList ys # xs) = True"
| "has_list (x # xs) = has_list xs"

definition sample_ks_2samp :: "pyval list \<Rightarrow> pyval list \<Rightarrow> exn + score \<times> pvalue" where
  "sample_ks_2samp reference_values current_values =
     (if has_none reference_values \<or> has_none current_values then
        Inl (PyExc ''TypeError'' ''< not supported between instances of NoneType and NoneType'')
      else if reference_values = [] \<or> current_values = [] then Inr (NaN, PNaN)
      else if has_list current_values then
        Inr (Arr (1 / 2) (1 / 2) [], PArray (Prob (1 / 4)) (Prob (1 / 4)) [])
      else Inr (Num (1 / 4), PScalar (Prob (1 / 2))))"

text \<open>
  A program that imports the module: the name \<open>os\<close> is not bound, the test behaves as
  above, and every other call succeeds.
\<close>

definition importing_env :: env where
  "importing_env = quiet_env\<lparr>ks_2samp := (\<lambda>t. sample_ks_2samp), os_imported := False\<rparr>"

section \<open>Properties of the trim\<close>

lemma py_slice_from_neg:
  "0 < b \<Longrightarrow> py_slice_from (- b) xs = drop (length xs - nat b) xs"
  by (simp add: py_slice_from_def Let_def max_def nat_diff_distrib' nat_le_iff)

lemma py_slice_from_zero: "py_slice_from 0 xs = xs"
  by (simp add: py_slice_from_def)

lemma trim_seq_short: "int (length xs) \<le> b \<Longrightarrow> trim_seq b xs = []"
  by (simp add: trim_seq_def)

lemma trim_seq_long:
  "0 < b \<Longrightarrow> b < int (length xs) \<Longrightarrow> trim_seq b xs = drop (length xs - nat b) xs"
  by (simp add: trim_seq_def py_slice_from_neg)

lemma length_trim_seq_le:
  "0 < b \<Longrightarrow> int (length (trim_seq b xs)) \<le> b"
  by (cases "b < int (length xs)") (auto simp: trim_seq_long trim_seq_short)

lemma trim_seq_cases:
  "0 < b \<Longrightarrow>
   trim_seq b xs = (if int (length xs) \<le> b then [] else drop (length xs - nat b) xs)"
  by (simp add: trim_seq_short trim_seq_long)

lemma buffer_size_pos: "10 \<le> window_size d \<Longrightarrow> 0 < buffer_size d"
  by (simp add: buffer_size_def min_def) presburger

text \<open>
  C4 (as amended). With \<open>B = min(100, window_size // 10)\<close> and a window size of at least
  10 (so that \<open>B \<ge> 1\<close>), the trim clears the prediction sequence and every per-feature
  sequence whose length is at most \<open>B\<close>, a length of exactly \<open>B\<close> included, and replaces
  every longer one by its last \<open>B\<close> elements; the feature names and their order stay.
\<close>

theorem reset_current_data_clears_up_to_bound:
  assumes "10 \<le> window_size d"
  shows "buffer_size d = min 100 (window_size d div 10) \<and>
         current_predictions (reset_current_data d) =
           (if int (length (current_predictions d)) \<le> buffer_size d then []
            else drop (length (current_predictions d) - nat (buffer_size d))
                   (current_predictions d)) \<and>
         current_features (reset_current_data d) =
           map (\<lambda>(name, xs).
                  (name, if int (length xs) \<le> buffer_size d then []
                         else drop (length xs - nat (buffer_size d)) xs))
               (current_features d)"
proof -
  have pos: "0 < buffer_size d"
    using assms by (rule buffer_size_pos)
  have "current_predictions (reset_current_data d) =
          trim_seq (buffer_size d) (current_predictions d)"
    by (simp add: reset_current_data_def Let_def)
  moreover have "current_features (reset_current_data d) =
          map (\<lambda>(name, xs). (name, trim_seq (buffer_size d) xs)) (current_features d)"
    by (simp add: reset_current_data_def Let_def)
  moreover have "buffer_size d = min 100 (window_size d div 10)"
    by (simp add: buffer_size_def)
  ultimately show ?thesis
    using pos by (simp only: trim_seq_cases simp_thms)
qed

theorem reset_current_data_clears_up_to_bound_witness:
  "current_predictions (reset_current_data
      (sample_detector 20 [(''x'', [PInt 1, PInt 2, PInt 3])] [PInt 1, PInt 2])) = [] \<and>
   current_features (reset_current_data
      (sample_detector 20 [(''x'', [PInt 1, PInt 2, PInt 3])] [PInt 1, PInt 2]))
     = [(''x'', [PInt 2, PInt 3])]"
  using reset_current_data_clears_up_to_bound
          [of "sample_detector 20 [(''x'', [PInt 1, PInt 2, PInt 3])] [PInt 1, PInt 2]"]
  by (simp add: sample_detector_def)

text \<open>
  C4, the claim as written, fails: with \<open>window_size = 20\<close> the bound is 2, and a
  prediction sequence and a feature sequence of length exactly 2 are cleared, not retained.
\<close>

theorem reset_current_data_exact_length_counterexample:
  "buffer_size (sample_detector 20 [(''x'', [PInt 1, PInt 2])] [PInt 7, PInt 8]) = 2 \<and>
   current_predictions (reset_current_data
      (sample_detector 20 [(''x'', [PInt 1, PInt 2])] [PInt 7, PInt 8])) = [] \<and>
   current_features (reset_current_data
      (sample_detector 20 [(''x'', [PInt 1, PInt 2])] [PInt 7, PInt 8])) = [(''x'', [])]"
  by (simp add: reset_current_data_def buffer_size_def trim_seq_def sample_detector_def)

text \<open>
  The bound of C5 holds for a window size of at least 10: after the trim no sequence is
  longer than \<open>min(100, window_size // 10)\<close>.
\<close>

lemma reset_current_data_bound:
  assumes "10 \<le> window_size d"
  shows "int (length (current_predictions (reset_current_data d))) \<le> buffer_size d"
    and "(name, xs) \<in> set (current_features (reset_current_data d))
           \<Longrightarrow> int (length xs) \<le> buffer_size d"
proof -
  have pos: "0 < buffer_size d"
    using assms by (rule buffer_size_pos)
  show "int (length (current_predictions (reset_current_data d))) \<le> buffer_size d"
    using length_trim_seq_le [OF pos] by (simp add: reset_current_data_def Let_def)
  show "int (length xs) \<le> buffer_size d"
    if "(name, xs) \<in> set (current_features (reset_current_data d))"
    using that length_trim_seq_le [OF pos]
    by (auto simp: reset_current_data_def Let_def)
qed

text \<open>
  C5 at \<open>window_size = 5\<close>: the bound is \<open>min(100, 5 // 10) = 0\<close>, the slice
  \<open>xs[-0:]\<close> is the whole list, and the trim leaves five predictions and five values of
  the feature in place.
\<close>

theorem reset_current_data_small_window_keeps_all:
  "buffer_size (sample_detector 5 [(''x'', [PInt 1, PInt 2, PInt 3, PInt 4, PInt 5])]
                  [PInt 1, PInt 2, PInt 3, PInt 4, PInt 5]) = 0 \<and>
   current_predictions (reset_current_data
      (sample_detector 5 [(''x'', [PInt 1, PInt 2, PInt 3, PInt 4, PInt 5])]
         [PInt 1, PInt 2, PInt 3, PInt 4, PInt 5]))
     = [PInt 1, PInt 2, PInt 3, PInt 4, PInt 5] \<and>
   current_features (reset_current_data
      (sample_detector 5 [(''x'', [PInt 1, PInt 2, PInt 3, PInt 4, PInt 5])]
         [PInt 1, PInt 2, PInt 3, PInt 4, PInt 5]))
     = [(''x'', [PInt 1, PInt 2, PInt 3, PInt 4, PInt 5])]"
  by (simp add: reset_current_data_def buffer_size_def trim_seq_def py_slice_from_def
        sample_detector_def)

section \<open>The two ways out of the drift check\<close>

lemma detect_drift_cases:
  "(\<exists>e w'. detect_drift E d w = (Inl e, d, w')) \<or>
   (\<exists>m w'. detect_drift E d w = (Inr m, reset_current_data d, w'))"
  by (auto simp: detect_drift_def Let_def split: prod.splits sum.splits)

lemma detect_drift_trims:
  "detect_drift E d w = (Inr m, d', w') \<Longrightarrow> d' = reset_current_data d"
  using detect_drift_cases [of E d w] by auto

lemma detect_drift_raise_keeps:
  "detect_drift E d w = (Inl e, d', w') \<Longrightarrow> d' = d"
  using detect_drift_cases [of E d w] by auto

lemma anomaly_block_returns: "\<exists>a w'. anomaly_block E d w = (Inr a, w')"
  by (simp add: anomaly_block_def split: option.splits prod.splits sum.splits)

lemma push_block_returns: "\<exists>w'. push_block E d w = (Inr (), w')"
  by (simp add: push_block_def split: option.splits)

lemma log_drift_metrics_returns: "\<exists>w'. log_drift_metrics E d m w = (Inr (), w')"
  by (simp add: log_drift_metrics_def Let_def split: option.splits)

lemma detect_drift_after_scores:
  assumes "feature_drift_loop E d (current_features d) [] (step w) = (Inr fd, w1)"
      and "prediction_drift_block E d w1 = (Inr pd, w2)"
  shows "\<exists>m w'. detect_drift E d w = (Inr m, reset_current_data d, w')"
proof -
  obtain a w3 where 3: "anomaly_block E d w2 = (Inr a, w3)"
    using anomaly_block_returns by blast
  obtain w4 where 4: "push_block E d w3 = (Inr (), w4)"
    using push_block_returns by blast
  obtain w5 where 5: "log_drift_metrics E d
      (\<lparr>m_timestamp = now_isoformat E (tick w), m_model_name = model_name d,
        m_model_version = model_version d, m_feature_drift = fd,
        m_prediction_drift = pd, m_concept_drift = Num 0, m_anomaly_score = a\<rparr>) w4 = (Inr (), w5)"
    using log_drift_metrics_returns by blast
  show ?thesis
    by (simp add: detect_drift_def Let_def assms 3 4 5)
qed

lemma feature_drift_loop_no_reference:
  "reference_features d = [] \<Longrightarrow> feature_drift_loop E d items fd w = (Inr fd, w)"
  by (induction items arbitrary: fd w) auto

lemma prediction_drift_block_no_reference:
  "reference_predictions d = [] \<Longrightarrow> prediction_drift_block E d w = (Inr (Num 0), w)"
  by (simp add: prediction_drift_block_def)

lemma detect_drift_no_reference:
  assumes "reference_features d = []" and "reference_predictions d = []"
  shows "\<exists>m w'. detect_drift E d w = (Inr m, reset_current_data d, w')"
  using detect_drift_after_scores
          [OF feature_drift_loop_no_reference [OF assms(1)]
              prediction_drift_block_no_reference [OF assms(2)]]
  by blast

section \<open>The drift check calls the outside\<close>

lemma tick_step [simp]: "tick (step w) = Suc (tick w)"
  by (simp add: step_def)

lemma tick_log_msg [simp]: "tick (log_msg l m w) = tick w"
  by (simp add: log_msg_def)

lemma tick_gauge_set [simp]: "tick (snd (gauge_set n ls v w)) = tick w"
  by (cases v) simp_all

lemma tick_calculate_distribution_drift:
  "tick (snd (calculate_distribution_drift E r c w)) = Suc (tick w)"
  by (simp add: calculate_distribution_drift_def split: sum.splits prod.splits)

lemma tick_feature_drift_loop:
  "tick w \<le> tick (snd (feature_drift_loop E d items fd w))"
proof (induction items arbitrary: fd w)
  case Nil
  show ?case by simp
next
  case (Cons item items)
  obtain name cur where item: "item = (name, cur)" by (cases item)
  have IH: "tick w' \<le> tick (snd (feature_drift_loop E d items fd' w'))" for fd' w'
    by (rule Cons.IH)
  show ?case
  proof (cases "map_of (reference_features d) name")
    case None
    then show ?thesis using IH item by simp
  next
    case (Some ref)
    show ?thesis
    proof (cases "cur = []")
      case True
      then show ?thesis using IH item Some by simp
    next
      case False
      obtain res w1 where c: "calculate_distribution_drift E ref cur w = (res, w1)"
        by (cases "calculate_distribution_drift E ref cur w")
      have t1: "tick w1 = Suc (tick w)"
        using tick_calculate_distribution_drift [of E ref cur w] c by simp
      show ?thesis
      proof (cases res)
        case (Inl e)
        then show ?thesis using item Some False c t1 by simp
      next
        case (Inr s)
        let ?g = "if metrics_store d = ''prometheus''
                  then gauge_set ''model_feature_drift'' [model_name d, model_version d, name] s w1
                  else (Inr (), w1)"
        obtain gr w2 where g: "?g = (gr, w2)" by (cases ?g)
        have t2: "tick w2 = tick w1"
        proof (cases "metrics_store d = ''prometheus''")
          case True
          then have "w2 = snd (gauge_set ''model_feature_drift''
                                 [model_name d, model_version d, name] s w1)"
            using g by simp
          then show ?thesis by simp
        next
          case False
          then show ?thesis using g by simp
        qed
        have unfold: "feature_drift_loop E d ((name, cur) # items) fd w =
            (case gr of
               Inl e \<Rightarrow> (Inl e, w2)
             | Inr u \<Rightarrow>
                 (case py_gt s (drift_threshold d) of
                    Inl e \<Rightarrow> (Inl e, w2)
                  | Inr significant \<Rightarrow>
                      feature_drift_loop E d items (dict_set fd name s)
                        (if significant then log_msg WARNING (FeatureDriftDetected name s) w2
                         else w2)))"
          using Some False c Inr g by simp
        show ?thesis
        proof (cases gr)
          case (Inl e)
          then show ?thesis using unfold item t1 t2 by simp
        next
          case gok: (Inr u)
          show ?thesis
          proof (cases "py_gt s (drift_threshold d)")
            case (Inl e)
            then show ?thesis using unfold gok item t1 t2 by simp
          next
            case cmp: (Inr significant)
            let ?w3 = "if significant then log_msg WARNING (FeatureDriftDetected name s) w2
                       else w2"
            have "tick ?w3 = Suc (tick w)" using t1 t2 by simp
            moreover have "tick ?w3 \<le>
                tick (snd (feature_drift_loop E d items (dict_set fd name s) ?w3))"
              by (rule IH)
            ultimately show ?thesis using unfold gok cmp item by simp
          qed
        qed
      qed
    qed
  qed
qed

lemma tick_prediction_drift_block:
  "tick w \<le> tick (snd (prediction_drift_block E d w))"
proof (cases "length (reference_predictions d) > 0 \<and> length (current_predictions d) > 0")
  case False
  then have "prediction_drift_block E d w = (Inr (Num 0), w)"
    unfolding prediction_drift_block_def by (simp only: if_False)
  then show ?thesis by simp
next
  case True
  obtain res w1 where c:
    "calculate_distribution_drift E (reference_predictions d) (current_predictions d) w = (res, w1)"
    by (cases "calculate_distribution_drift E (reference_predictions d) (current_predictions d) w")
  have t1: "tick w1 = Suc (tick w)"
    using tick_calculate_distribution_drift
            [of E "reference_predictions d" "current_predictions d" w] c by simp
  show ?thesis
  proof (cases res)
    case (Inl e)
    then show ?thesis using True c t1 by (simp add: prediction_drift_block_def)
  next
    case (Inr s)
    let ?g = "if metrics_store d = ''prometheus''
              then gauge_set ''model_prediction_drift'' [model_name d, model_version d] s w1
              else (Inr (), w1)"
    obtain gr w2 where g: "?g = (gr, w2)" by (cases ?g)
    have t2: "tick w2 = tick w1"
    proof (cases "metrics_store d = ''prometheus''")
      case True
      then have "w2 = snd (gauge_set ''model_prediction_drift''
                             [model_name d, model_version d] s w1)"
        using g by simp
      then show ?thesis by simp
    next
      case False
      then show ?thesis using g by simp
    qed
    have "prediction_drift_block E d w =
            (case gr of
               Inl e \<Rightarrow> (Inl e, w2)
             | Inr u \<Rightarrow>
                 (case py_gt s (drift_threshold d) of
                    Inl e \<Rightarrow> (Inl e, w2)
                  | Inr significant \<Rightarrow>
                      (Inr s, if significant then log_msg WARNING (PredictionDriftDetected s) w2
                              else w2)))"
      using True c Inr g by (simp add: prediction_drift_block_def)
    then show ?thesis
      using t1 t2 by (simp split: sum.splits)
  qed
qed

lemma tick_anomaly_try: "tick w \<le> tick (snd (snd (anomaly_try E d f w)))"
proof (cases "same_lengths (anomaly_matrix d)")
  case False
  then show ?thesis by (simp add: anomaly_try_def)
next
  case True
  show ?thesis
  proof (cases f)
    case Unfitted
    then show ?thesis using True by (simp add: anomaly_try_def)
  next
    case (Fitted cols)
    show ?thesis
    proof (cases "score_samples E (tick w) cols (anomaly_matrix d)")
      case (Inl e)
      then show ?thesis using True Fitted by (simp add: anomaly_try_def)
    next
      case (Inr scores)
      let ?g = "if metrics_store d = ''prometheus''
                then gauge_set ''model_anomaly_score'' [model_name d, model_version d]
                       (neg_mean scores) (step w)
                else (Inr (), step w)"
      obtain gr w2 where g: "?g = (gr, w2)" by (cases ?g)
      have t2: "tick w2 = Suc (tick w)"
      proof (cases "metrics_store d = ''prometheus''")
        case True
        then have "w2 = snd (gauge_set ''model_anomaly_score''
                               [model_name d, model_version d] (neg_mean scores) (step w))"
          using g by simp
        then show ?thesis by simp
      next
        case False
        then show ?thesis using g by auto
      qed
      have "anomaly_try E d f w =
              (case gr of
                 Inl e \<Rightarrow> (Inl e, neg_mean scores, w2)
               | Inr u \<Rightarrow>
                   (case py_gt (neg_mean scores) 0.7 of
                      Inl e \<Rightarrow> (Inl e, neg_mean scores, w2)
                    | Inr anomalous \<Rightarrow>
                        (Inr (), neg_mean scores,
                         if anomalous then log_msg WARNING (AnomaliesDetected (neg_mean scores)) w2
                         else w2)))"
        using True Fitted Inr g by (simp add: anomaly_try_def Let_def)
      then show ?thesis
        using t2 by (simp split: sum.splits)
    qed
  qed
qed

lemma tick_anomaly_block: "tick w \<le> tick (snd (anomaly_block E d w))"
proof (cases "isolation_forest d")
  case None
  then show ?thesis by (simp add: anomaly_block_def)
next
  case (Some f)
  obtain r a w1 where t: "anomaly_try E d f w = (r, a, w1)"
    by (cases "anomaly_try E d f w") auto
  have "tick w \<le> tick w1"
    using tick_anomaly_try [of w E d f] t by simp
  then show ?thesis
    using Some t by (cases r) (simp_all add: anomaly_block_def)
qed

lemma tick_push_block: "tick w \<le> tick (snd (push_block E d w))"
  by (simp add: push_block_def split: option.splits)

lemma tick_log_drift_metrics: "tick (snd (log_drift_metrics E d m w)) = Suc (tick w)"
  by (simp add: log_drift_metrics_def Let_def split: option.splits)

lemma tick_detect_drift: "tick w < tick (snd (snd (detect_drift E d w)))"
proof -
  obtain r1 w1 where 1: "feature_drift_loop E d (current_features d) [] (step w) = (r1, w1)"
    by (cases "feature_drift_loop E d (current_features d) [] (step w)")
  have t1: "Suc (tick w) \<le> tick w1"
    using tick_feature_drift_loop [of "step w" E d "current_features d" "[]"] 1 by simp
  show ?thesis
  proof (cases r1)
    case (Inl e)
    then show ?thesis using 1 t1 by (simp add: detect_drift_def Let_def)
  next
    case fd: (Inr fd)
    obtain r2 w2 where 2: "prediction_drift_block E d w1 = (r2, w2)"
      by (cases "prediction_drift_block E d w1")
    have t2: "tick w1 \<le> tick w2"
      using tick_prediction_drift_block [of w1 E d] 2 by simp
    show ?thesis
    proof (cases r2)
      case (Inl e)
      then show ?thesis using 1 fd 2 t1 t2 by (simp add: detect_drift_def Let_def)
    next
      case pd: (Inr pd)
      obtain a w3 where 3: "anomaly_block E d w2 = (Inr a, w3)"
        using anomaly_block_returns by blast
      have t3: "tick w2 \<le> tick w3"
        using tick_anomaly_block [of w2 E d] 3 by simp
      obtain w4 where 4: "push_block E d w3 = (Inr (), w4)"
        using push_block_returns by blast
      have t4: "tick w3 \<le> tick w4"
        using tick_push_block [of w3 E d] 4 by simp
      let ?m = "\<lparr>m_timestamp = now_isoformat E (tick w), m_model_name = model_name d,
                 m_model_version = model_version d, m_feature_drift = fd,
                 m_prediction_drift = pd, m_concept_drift = Num 0, m_anomaly_score = a\<rparr>"
      obtain w5 where 5: "log_drift_metrics E d ?m w4 = (Inr (), w5)"
        using log_drift_metrics_returns by blast
      have t5: "tick w5 = Suc (tick w4)"
        using tick_log_drift_metrics [of E d ?m w4] 5 by simp
      have "detect_drift E d w = (Inr ?m, reset_current_data d, w5)"
        using 1 fd 2 pd 3 4 5 by (simp add: detect_drift_def Let_def)
      then show ?thesis using t1 t2 t3 t4 t5 by simp
    qed
  qed
qed

section \<open>The drift score\<close>

lemma prob_val_bounds: "0 \<le> prob_val p \<and> prob_val p \<le> 1"
  using prob_val [of p] by simp

lemma prob_val_Prob: "0 \<le> x \<Longrightarrow> x \<le> 1 \<Longrightarrow> prob_val (Prob x) = x"
  by (simp add: Prob_inverse)

text \<open>
  C3 (as amended). When the Kolmogorov-Smirnov test returns one p-value, the drift score is
  1 minus that p-value and lies in [0,1]. When the test raises, the function returns 0.0
  and gives the logger one record of level ERROR (\<open>logger.error\<close>); it does not raise.
\<close>

theorem calculate_distribution_drift_score:
  "(ks_2samp E (tick w) r c = Inr (ks_stat, PScalar p) \<longrightarrow>
      calculate_distribution_drift E r c w = (Inr (Num (1 - prob_val p)), step w) \<and>
      0 \<le> 1 - prob_val p \<and> 1 - prob_val p \<le> 1) \<and>
   (ks_2samp E (tick w) r c = Inl e \<longrightarrow>
      calculate_distribution_drift E r c w
        = (Inr (Num 0), log_msg ERROR (FailedDistributionDrift e) (step w)))"
  using prob_val_bounds [of p] by (simp add: calculate_distribution_drift_def)

theorem calculate_distribution_drift_score_witness:
  "calculate_distribution_drift importing_env [PFloat 0, PFloat 1] [PFloat 2] world0
     = (Inr (Num (1 / 2)), step world0) \<and>
   calculate_distribution_drift importing_env [PFloat 0, PFloat 1] [PNone, PNone] world0
     = (Inr (Num 0), log_msg ERROR (FailedDistributionDrift
          (PyExc ''TypeError'' ''< not supported between instances of NoneType and NoneType''))
          (step world0))"
  using calculate_distribution_drift_score
          [of importing_env world0 "[PFloat 0, PFloat 1]" "[PFloat 2]" "Num (1 / 4)" "Prob (1 / 2)"]
        calculate_distribution_drift_score
          [of importing_env world0 "[PFloat 0, PFloat 1]" "[PNone, PNone]" _ _
              "PyExc ''TypeError'' ''< not supported between instances of NoneType and NoneType''"]
  by (simp add: importing_env_def quiet_env_def sample_ks_2samp_def prob_val_Prob)

text \<open>
  C3, the claim as written, fails in what is logged: for a current sample of two \<open>None\<close>
  predictions, on which the test raises \<open>TypeError\<close>, the function returns 0.0 and the
  one record it logs is of level ERROR; no record of level WARNING is logged.
\<close>

theorem calculate_distribution_drift_logs_error_counterexample:
  "fst (calculate_distribution_drift importing_env [PFloat 0, PFloat 1] [PNone, PNone] world0)
     = Inr (Num 0) \<and>
   map fst (log_records
     (snd (calculate_distribution_drift importing_env [PFloat 0, PFloat 1] [PNone, PNone] world0)))
     = [ERROR] \<and>
   WARNING \<notin> set (map fst (log_records
     (snd (calculate_distribution_drift importing_env [PFloat 0, PFloat 1] [PNone, PNone] world0))))"
  by (simp add: calculate_distribution_drift_def importing_env_def quiet_env_def
        sample_ks_2samp_def world0_def log_msg_def step_def)


section \<open>Readiness\<close>

lemma window_size_reset [simp]: "window_size (reset_current_data d) = window_size d"
  by (simp add: reset_current_data_def Let_def)

lemma window_size_record [simp]: "window_size (record_observation fs p d) = window_size d"
  by (simp add: record_observation_def)

lemma buffer_size_reset [simp]: "buffer_size (reset_current_data d) = buffer_size d"
  by (simp add: buffer_size_def)

lemma buffer_size_less_window: "10 \<le> window_size d \<Longrightarrow> buffer_size d < window_size d"
  by (simp add: buffer_size_def min_def) presburger

lemma not_ready_after_reset:
  "10 \<le> window_size d \<Longrightarrow> \<not> is_ready (reset_current_data d)"
  using reset_current_data_bound(1) [of d] buffer_size_less_window [of d]
  by (simp add: is_ready_def)

text \<open>
  C6. \<open>add_observation\<close> calls \<open>detect_drift\<close> on the recorded state exactly when
  \<open>is_ready\<close> holds of it, that is when the prediction sequence, with the new prediction,
  has at least \<open>window_size\<close> elements; otherwise it returns the recorded state and leaves
  the outside untouched, whereas a drift check always calls the outside. When the drift
  check returns, the state is the trimmed one, which is ready only if
  \<open>window_size\<close> predictions are left after the trim; for a window size of at least 10
  it is not ready.
\<close>

theorem drift_check_runs_exactly_when_ready:
  "add_observation E fs p gt d w =
     (if is_ready (record_observation fs p d)
      then (case detect_drift E (record_observation fs p d) w of
              (Inl e, d2, w2) \<Rightarrow> (Inl e, d2, w2)
            | (Inr m, d2, w2) \<Rightarrow> (Inr (), d2, w2))
      else (Inr (), record_observation fs p d, w)) \<and>
   (is_ready (record_observation fs p d)
      \<longleftrightarrow> window_size d \<le> int (length (current_predictions d)) + 1) \<and>
   tick w < tick (snd (snd (detect_drift E d w))) \<and>
   (detect_drift E d w = (Inr m, d', w') \<longrightarrow>
      d' = reset_current_data d \<and>
      (is_ready d' \<longleftrightarrow>
         window_size d \<le> int (length (trim_seq (buffer_size d) (current_predictions d)))) \<and>
      (10 \<le> window_size d \<longrightarrow> \<not> is_ready d'))"
proof -
  have a: "add_observation E fs p gt d w =
     (if is_ready (record_observation fs p d)
      then (case detect_drift E (record_observation fs p d) w of
              (Inl e, d2, w2) \<Rightarrow> (Inl e, d2, w2)
            | (Inr m, d2, w2) \<Rightarrow> (Inr (), d2, w2))
      else (Inr (), record_observation fs p d, w))"
    by (simp add: add_observation_def is_ready_def Let_def)
  have b: "is_ready (record_observation fs p d)
      \<longleftrightarrow> window_size d \<le> int (length (current_predictions d)) + 1"
    by (auto simp: is_ready_def record_observation_def)
  have c: "tick w < tick (snd (snd (detect_drift E d w)))"
    by (rule tick_detect_drift)
  have e: "d' = reset_current_data d \<and>
      (is_ready d' \<longleftrightarrow>
         window_size d \<le> int (length (trim_seq (buffer_size d) (current_predictions d)))) \<and>
      (10 \<le> window_size d \<longrightarrow> \<not> is_ready d')"
    if "detect_drift E d w = (Inr m, d', w')"
  proof -
    have t: "d' = reset_current_data d"
      using detect_drift_trims [OF that] .
    moreover have "is_ready (reset_current_data d) \<longleftrightarrow>
         window_size d \<le> int (length (trim_seq (buffer_size d) (current_predictions d)))"
      by (simp add: is_ready_def reset_current_data_def Let_def)
    ultimately show ?thesis using not_ready_after_reset [of d] by simp
  qed
  from a b c e show ?thesis by blast
qed

theorem drift_check_runs_exactly_when_ready_witness:
  "add_observation quiet_env [] (PFloat 3) None (sample_detector 30 [] [PFloat 1, PFloat 2])
       world0
     = (Inr (), sample_detector 30 [] [PFloat 1, PFloat 2, PFloat 3], world0) \<and>
   add_observation quiet_env [] (PFloat 3) None (sample_detector 30 [] (replicate 29 (PFloat 1)))
       world0
     = (Inr (), sample_detector 30 [] [PFloat 1, PFloat 1, PFloat 3],
        world0\<lparr>tick := 2,
               jsonl := [(''logs/example_model_drift.jsonl'',
                          \<lparr>m_timestamp = ''2024-01-01T00:00:00'',
                           m_model_name = ''example_model'', m_model_version = ''1.0.0'',
                           m_feature_drift = [], m_prediction_drift = Num 0,
                           m_concept_drift = Num 0, m_anomaly_score = Num 0\<rparr>)]\<rparr>) \<and>
   is_ready (sample_detector 30 [] [PFloat 1, PFloat 1, PFloat 3]) = False"
proof -
  let ?d = "sample_detector 30 [] (replicate 29 (PFloat 1))"
  let ?m = "\<lparr>m_timestamp = ''2024-01-01T00:00:00'',
             m_model_name = ''example_model'', m_model_version = ''1.0.0'',
             m_feature_drift = [], m_prediction_drift = Num 0,
             m_concept_drift = Num 0, m_anomaly_score = Num 0\<rparr>"
  have dd: "detect_drift quiet_env (record_observation [] (PFloat 3) ?d) world0
          = (Inr ?m, sample_detector 30 [] [PFloat 1, PFloat 1, PFloat 3],
             world0\<lparr>tick := 2, jsonl := [(''logs/example_model_drift.jsonl'', ?m)]\<rparr>)"
    by (simp add: detect_drift_def prediction_drift_block_def anomaly_block_def push_block_def
          log_drift_metrics_def reset_current_data_def buffer_size_def trim_seq_def
          py_slice_from_def record_observation_def sample_detector_def quiet_env_def
          world0_def step_def Let_def numeral_eq_Suc)
  have r: "is_ready (record_observation [] (PFloat 3) ?d)"
    by (simp add: is_ready_def record_observation_def sample_detector_def)
  have n: "\<not> is_ready (record_observation [] (PFloat 3)
                     (sample_detector 30 [] [PFloat 1, PFloat 2]))"
    by (simp add: is_ready_def record_observation_def sample_detector_def)
  have rec: "record_observation [] (PFloat 3) (sample_detector 30 [] [PFloat 1, PFloat 2])
               = sample_detector 30 [] [PFloat 1, PFloat 2, PFloat 3]"
    by (simp add: record_observation_def sample_detector_def)
  show ?thesis
    using drift_check_runs_exactly_when_ready
            [of quiet_env "[]" "PFloat 3" None "sample_detector 30 [] [PFloat 1, PFloat 2]" world0]
          drift_check_runs_exactly_when_ready
            [of quiet_env "[]" "PFloat 3" None ?d world0]
          dd r n rec
    by (simp add: is_ready_def sample_detector_def)
qed

section \<open>Properties of recording an observation\<close>

lemma map_of_dict_set: "map_of (dict_set cf k v) = (map_of cf)(k \<mapsto> v)"
  by (induction cf) (auto simp: fun_eq_iff)

lemma feature_seq_dict_set:
  "feature_seq (dict_set cf k v) name = (if name = k then v else feature_seq cf name)"
  by (simp add: feature_seq_def map_of_dict_set)

lemma feature_seq_add_features:
  "feature_seq (add_features fs cf) name =
     feature_seq cf name @ map snd (filter (\<lambda>(k, v). k = name \<and> isinstance_int_float v) fs)"
proof (induction fs arbitrary: cf)
  case Nil
  show ?case by simp
next
  case (Cons kv fs)
  obtain k v where kv: "kv = (k, v)" by (cases kv)
  show ?case
    unfolding kv
    by (cases "map_of cf k")
       (auto simp: Cons.IH feature_seq_dict_set, auto simp: feature_seq_def)
qed

lemma isinstance_int_float_numeric: "isinstance_int_float v \<Longrightarrow> numeric v"
  by (cases v) simp_all

text \<open>
  C7. Recording an observation appends to the sequence of each feature name exactly the
  values of that name that pass \<open>isinstance(value, (int, float))\<close>, in order; each of
  them is numeric, and a value that is not numeric leaves the feature window as it is. The
  prediction is appended whatever it is. Recording itself cannot fail: when the window is
  not ready, \<open>add_observation\<close> returns the recorded state without touching the outside,
  and when it is ready the outcome is that of the drift check on the recorded state.
\<close>

theorem record_observation_appends:
  "feature_seq (current_features (record_observation fs p d)) name =
     feature_seq (current_features d) name
       @ map snd (filter (\<lambda>(k, v). k = name \<and> isinstance_int_float v) fs) \<and>
   (\<forall>v \<in> set (map snd (filter (\<lambda>(k, v). k = name \<and> isinstance_int_float v) fs)). numeric v) \<and>
   (\<not> numeric v \<longrightarrow> add_features [(name, v)] cf = cf) \<and>
   current_predictions (record_observation fs p d) = current_predictions d @ [p] \<and>
   (\<not> is_ready (record_observation fs p d) \<longrightarrow>
      add_observation E fs p gt d w = (Inr (), record_observation fs p d, w)) \<and>
   (is_ready (record_observation fs p d) \<longrightarrow>
      add_observation E fs p gt d w =
        (case detect_drift E (record_observation fs p d) w of
           (Inl e, d2, w2) \<Rightarrow> (Inl e, d2, w2)
         | (Inr m, d2, w2) \<Rightarrow> (Inr (), d2, w2)))"
proof -
  have "\<not> numeric v \<Longrightarrow> \<not> isinstance_int_float v"
    using isinstance_int_float_numeric by blast
  then show ?thesis
    by (auto simp: record_observation_def feature_seq_add_features add_observation_def
          is_ready_def Let_def isinstance_int_float_numeric)
qed

theorem record_observation_appends_witness:
  "feature_seq (current_features (record_observation
       [(''x'', PFloat 2), (''y'', PStr ''a''), (''z'', PBool True)] (PStr ''cat'')
       (sample_detector 1000 [(''x'', [PInt 1])] [PNone]))) ''x'' = [PInt 1, PFloat 2] \<and>
   add_features [(''y'', PStr ''a'')] [(''x'', [PInt 1])] = [(''x'', [PInt 1])] \<and>
   add_observation quiet_env [(''x'', PFloat 2), (''y'', PStr ''a''), (''z'', PBool True)]
       (PStr ''cat'') None (sample_detector 1000 [(''x'', [PInt 1])] [PNone]) world0
     = (Inr (),
        sample_detector 1000 [(''x'', [PInt 1, PFloat 2]), (''z'', [PBool True])]
          [PNone, PStr ''cat''],
        world0)"
  using record_observation_appends
          [of "[(''x'', PFloat 2), (''y'', PStr ''a''), (''z'', PBool True)]" "PStr ''cat''"
              "sample_detector 1000 [(''x'', [PInt 1])] [PNone]" "''x''" "PStr ''a''"
              "[(''x'', [PInt 1])]" quiet_env None world0]
  by (simp add: sample_detector_def record_observation_def feature_seq_def is_ready_def)

section \<open>The window after an observation\<close>

text \<open>
  The second half of C10 holds for a window size of at least 10: when
  \<open>add_observation\<close> returns, fewer than \<open>window_size\<close> predictions are held.
\<close>

lemma add_observation_below_window:
  assumes "10 \<le> window_size d"
      and "add_observation E fs p gt d w = (Inr (), d', w')"
  shows "int (length (current_predictions d')) < window_size d'"
proof (cases "is_ready (record_observation fs p d)")
  case False
  then show ?thesis
    using assms(2) by (auto simp: add_observation_def is_ready_def Let_def)
next
  case True
  let ?d1 = "record_observation fs p d"
  from True assms(2) obtain m where dd: "detect_drift E ?d1 w = (Inr m, d', w')"
    by (auto simp: add_observation_def is_ready_def Let_def split: prod.splits sum.splits)
  have "d' = reset_current_data ?d1"
    using detect_drift_trims [OF dd] .
  moreover have "\<not> is_ready (reset_current_data ?d1)"
    using not_ready_after_reset [of ?d1] assms(1) by simp
  ultimately show ?thesis by (simp add: is_ready_def)
qed

text \<open>
  C10 at \<open>window_size = 5\<close>, which is greater than \<open>min(100, 5 // 10) = 0\<close>: the
  fifth observation makes the window ready, the drift check runs and trims, but the trim
  takes the slice \<open>xs[-0:]\<close>, the whole list; \<open>add_observation\<close> returns with five
  predictions held, not fewer than five.
\<close>

theorem add_observation_small_window_stays_full:
  "window_size (sample_detector 5 [] [PInt 1, PInt 2, PInt 3, PInt 4]) = 5 \<and>
   min 100 (window_size (sample_detector 5 [] [PInt 1, PInt 2, PInt 3, PInt 4]) div 10) = 0 \<and>
   fst (add_observation quiet_env [] (PInt 5) None
          (sample_detector 5 [] [PInt 1, PInt 2, PInt 3, PInt 4]) world0) = Inr () \<and>
   current_predictions (fst (snd (add_observation quiet_env [] (PInt 5) None
          (sample_detector 5 [] [PInt 1, PInt 2, PInt 3, PInt 4]) world0)))
     = [PInt 1, PInt 2, PInt 3, PInt 4, PInt 5]"
proof -
  let ?d = "sample_detector 5 [] [PInt 1, PInt 2, PInt 3, PInt 4]"
  let ?d1 = "record_observation [] (PInt 5) ?d"
  have "reference_features ?d1 = []" and "reference_predictions ?d1 = []"
    by (simp_all add: record_observation_def sample_detector_def)
  then obtain m w' where dd:
    "detect_drift quiet_env ?d1 world0 = (Inr m, reset_current_data ?d1, w')"
    using detect_drift_no_reference by blast
  have "add_observation quiet_env [] (PInt 5) None ?d world0 = (Inr (), reset_current_data ?d1, w')"
    using dd by (simp add: add_observation_def Let_def record_observation_def sample_detector_def)
  moreover have "current_predictions (reset_current_data ?d1)
                   = [PInt 1, PInt 2, PInt 3, PInt 4, PInt 5]"
    by (simp add: reset_current_data_def buffer_size_def trim_seq_def py_slice_from_def
          record_observation_def sample_detector_def)
  ultimately show ?thesis by (simp add: sample_detector_def)
qed

section \<open>Loading the reference data\<close>

text \<open>
  C2 (as amended). When reading the reference file raises (the file is missing or
  malformed), \<open>_load_reference_data\<close> logs an error and returns normally with the
  detector as it was; \<open>__init__\<close> then completes, with empty reference data and no
  anomaly model, and logs that the detector is initialised. (The gauges of a Prometheus
  store are created before the file is read.)
\<close>

theorem load_failure_is_not_fatal:
  assumes "(if store = ''prometheus'' then init_prometheus_metrics E w else (Inr (), w))
             = (Inr (), w1)"
      and "path \<noteq> []"
      and "read_csv E (tick w1) path = Inl e"
  shows "load_reference_data E path d w1
           = (Inr (), d, log_msg ERROR (FailedLoadReference e) (step w1)) \<and>
         DriftDetector_init E name version (Some path) store url threshold wsize w
           = (Inr (),
              \<lparr>model_name = name, model_version = version, reference_data_path = Some path,
               metrics_store = store, push_gateway_url = url, drift_threshold = threshold,
               window_size = wsize, reference_features = [], reference_predictions = [],
               current_features = [], current_predictions = [], isolation_forest = None\<rparr>,
              log_msg INFO (Initialized name version)
                (log_msg ERROR (FailedLoadReference e) (step w1)))"
proof -
  have l: "load_reference_data E path d w1
             = (Inr (), d, log_msg ERROR (FailedLoadReference e) (step w1))" for d
    using assms(3) by (simp add: load_reference_data_def)
  show ?thesis
    using assms(1,2) by (simp add: DriftDetector_init_def Let_def l)
qed

theorem load_failure_is_not_fatal_witness:
  "DriftDetector_init failing_env ''example_model'' ''1.0.0'' (Some ''data/missing.csv'')
       ''local'' (Some ''localhost:9091'') 0.05 1000 world0
     = (Inr (),
        (sample_detector 1000 [] [])\<lparr>reference_data_path := Some ''data/missing.csv''\<rparr>,
        log_msg INFO (Initialized ''example_model'' ''1.0.0'')
          (log_msg ERROR (FailedLoadReference (PyExc ''FileNotFoundError'' ''data/missing.csv''))
             (step world0)))"
  using load_failure_is_not_fatal
          [of "''local''" failing_env world0 world0 "''data/missing.csv''"
              "PyExc ''FileNotFoundError'' ''data/missing.csv''" _ "''example_model''" "''1.0.0''"
              "Some ''localhost:9091''" "0.05" 1000]
  by (simp add: failing_env_def world0_def sample_detector_def)

text \<open>
  C2, the claim as written, fails: with a missing reference file neither
  \<open>_load_reference_data\<close> nor \<open>__init__\<close> raises.
\<close>

theorem load_failure_counterexample:
  "fst (DriftDetector_init failing_env ''example_model'' ''1.0.0'' (Some ''data/missing.csv'')
          ''local'' (Some ''localhost:9091'') 0.05 1000 world0) = Inr () \<and>
   fst (load_reference_data failing_env ''data/missing.csv'' (sample_detector 1000 [] []) world0)
     = Inr ()"
  by (simp add: DriftDetector_init_def load_reference_data_def failing_env_def world0_def
        log_msg_def step_def)

section \<open>Anomaly scoring\<close>

text \<open>
  What holds of the anomaly block by itself: for a window size of at least 1 the matrix
  holds the last \<open>window_size\<close> values of exactly the complete features, and an unset or
  unfitted model, or a matrix the library rejects, gives the score 0.0.
\<close>

lemma anomaly_matrix_pos:
  assumes "0 < window_size d"
  shows "anomaly_matrix d =
           map (\<lambda>(name, xs). (name, drop (length xs - nat (window_size d)) xs))
               (filter (\<lambda>(name, xs). window_size d \<le> int (length xs)) (current_features d))"
  using assms by (simp add: anomaly_matrix_def py_slice_from_neg)

lemma anomaly_matrix_column_length:
  assumes "0 < window_size d" and "(name, col) \<in> set (anomaly_matrix d)"
  shows "int (length col) = window_size d"
  using assms by (auto simp: anomaly_matrix_pos)

lemma anomaly_block_untrained:
  "isolation_forest d = None \<Longrightarrow> anomaly_block E d w = (Inr (Num 0), w)"
  by (simp add: anomaly_block_def)

lemma anomaly_block_unfitted:
  "isolation_forest d = Some Unfitted \<Longrightarrow>
   \<exists>e. anomaly_block E d w = (Inr (Num 0), log_msg ERROR (FailedAnomalyScores e) w)"
  by (cases "same_lengths (anomaly_matrix d)")
     (simp_all add: anomaly_block_def anomaly_try_def, blast+)

lemma anomaly_block_rejected:
  "isolation_forest d = Some (Fitted cols) \<Longrightarrow>
   score_samples E (tick w) cols (anomaly_matrix d) = Inl e \<Longrightarrow>
   \<exists>e' w'. anomaly_block E d w = (Inr (Num 0), log_msg ERROR (FailedAnomalyScores e') w')"
  by (cases "same_lengths (anomaly_matrix d)")
     (simp_all add: anomaly_block_def anomaly_try_def, blast+)


section \<open>The report\<close>

text \<open>
  \<open>generate_drift_report\<close> never raises and returns the report path or the empty string;
  in a program that imports the module it returns the empty string.
\<close>

lemma generate_drift_report_returns:
  "\<exists>path d' w'. generate_drift_report E out d w = (Inr path, d', w') \<and>
                   (path = [] \<or> path = report_path_of E out d w)"
  by (auto simp: generate_drift_report_def report_body_def split: prod.splits sum.splits)

lemma generate_drift_report_imported:
  "\<not> os_imported E \<Longrightarrow> fst (generate_drift_report E out d w) = Inr []"
  by (simp add: generate_drift_report_def report_body_def os_makedirs_def
        split: prod.splits sum.splits)

text \<open>
  C9 in a program that imports the module, with every file and library call succeeding:
  the HTML file is written from its head to its closing tags (three drift checks log
  their metrics on the way), then \<open>os.makedirs\<close> raises \<open>NameError\<close> because \<open>os\<close> is
  imported only under \<open>if __name__ == "__main__":\<close>; no chart is drawn, the error is
  logged and the empty string is returned, not the path of the report.
\<close>

theorem generate_drift_report_imported_returns_empty:
  "generate_drift_report importing_env ''reports'' (sample_detector 1000 [] []) world0
     = (Inr [],
        sample_detector 1000 [] [],
        \<lparr>tick = 13,
         log_records = [(ERROR, FailedReport (PyExc ''NameError'' ''name os is not defined''))],
         gauges = [],
         jsonl = replicate 3
           (''logs/example_model_drift.jsonl'',
            \<lparr>m_timestamp = ''2024-01-01T00:00:00'', m_model_name = ''example_model'',
             m_model_version = ''1.0.0'', m_feature_drift = [], m_prediction_drift = Num 0,
             m_concept_drift = Num 0, m_anomaly_score = Num 0\<rparr>),
         reports = [(''reports/example_model_drift_report_20240101_000000.html'',
                     [HtmlHead ''example_model'' ''1.0.0'' ''20240101_000000'',
                      PredictionDiv ''drift-low'' (Num 0),
                      AnomalyDiv ''drift-low'' (Num 0),
                      HtmlClose])],
         charts = []\<rparr>)"
  by (simp add: generate_drift_report_def report_path_of_def report_body_def report_html_def
        f_open_w_def f_write_def os_makedirs_def drift_class_def anomaly_class_def
        detect_drift_def prediction_drift_block_def anomaly_block_def push_block_def
        log_drift_metrics_def reset_current_data_def buffer_size_def trim_seq_def
        importing_env_def quiet_env_def sample_detector_def world0_def step_def log_msg_def
        Let_def numeral_eq_Suc)

section \<open>When the drift check returns\<close>

text \<open>
  As long as the test never returns an array of p-values, nothing in the feature loop or
  the prediction block raises, and \<open>detect_drift\<close> returns with the window trimmed.
\<close>

lemma gauge_set_scalar:
  "\<not> (\<exists>a b cs. v = Arr a b cs) \<Longrightarrow> \<exists>w'. gauge_set n ls v w = (Inr (), w')"
  by (cases v) auto

lemma py_gt_scalar:
  "\<not> (\<exists>a b cs. v = Arr a b cs) \<Longrightarrow> \<exists>b. py_gt v t = Inr b"
  by (cases v) auto

lemma calculate_distribution_drift_scalar:
  assumes "\<And>t r c s p q ps. ks_2samp E t r c \<noteq> Inr (s, PArray p q ps)"
  shows "\<exists>v w'. calculate_distribution_drift E r c w = (Inr v, w') \<and>
                 \<not> (\<exists>a b cs. v = Arr a b cs)"
proof (cases "ks_2samp E (tick w) r c")
  case (Inl e)
  then show ?thesis by (simp add: calculate_distribution_drift_def)
next
  case (Inr sp)
  obtain s pv where sp: "sp = (s, pv)" by (cases sp)
  have "\<not> (\<exists>p q ps. pv = PArray p q ps)"
    using assms [of "tick w" r c s] Inr sp by auto
  then have "\<not> (\<exists>a b cs. one_minus pv = Arr a b cs)"
    by (cases pv) auto
  then show ?thesis
    using Inr sp by (simp add: calculate_distribution_drift_def)
qed

lemma feature_drift_loop_scalar:
  assumes "\<And>t r c s p q ps. ks_2samp E t r c \<noteq> Inr (s, PArray p q ps)"
  shows "\<exists>fd' w'. feature_drift_loop E d items fd w = (Inr fd', w')"
proof (induction items arbitrary: fd w)
  case Nil
  show ?case by simp
next
  case (Cons item items)
  obtain name cur where item: "item = (name, cur)" by (cases item)
  show ?case
  proof (cases "map_of (reference_features d) name")
    case None
    then show ?thesis using Cons.IH item by simp
  next
    case (Some ref)
    show ?thesis
    proof (cases "cur = []")
      case True
      then show ?thesis using Cons.IH item Some by simp
    next
      case False
      obtain v w1 where c: "calculate_distribution_drift E ref cur w = (Inr v, w1)"
        and v: "\<not> (\<exists>a b cs. v = Arr a b cs)"
        using calculate_distribution_drift_scalar [OF assms, of ref cur w] by blast
      obtain w2 where g:
        "(if metrics_store d = ''prometheus''
          then gauge_set ''model_feature_drift'' [model_name d, model_version d, name] v w1
          else (Inr (), w1)) = (Inr (), w2)"
        using gauge_set_scalar [OF v] by (cases "metrics_store d = ''prometheus''") (simp_all, blast)
      obtain b where p: "py_gt v (drift_threshold d) = Inr b"
        using py_gt_scalar [OF v] by blast
      have "feature_drift_loop E d ((name, cur) # items) fd w =
              feature_drift_loop E d items (dict_set fd name v)
                (if b then log_msg WARNING (FeatureDriftDetected name v) w2 else w2)"
        using Some False c g p by simp
      then show ?thesis using Cons.IH item by simp
    qed
  qed
qed

lemma prediction_drift_block_scalar:
  assumes "\<And>t r c s p q ps. ks_2samp E t r c \<noteq> Inr (s, PArray p q ps)"
  shows "\<exists>pd w'. prediction_drift_block E d w = (Inr pd, w')"
proof (cases "length (reference_predictions d) > 0 \<and> length (current_predictions d) > 0")
  case False
  then have "prediction_drift_block E d w = (Inr (Num 0), w)"
    unfolding prediction_drift_block_def by (simp only: if_False)
  then show ?thesis by simp
next
  case True
  obtain v w1 where c:
    "calculate_distribution_drift E (reference_predictions d) (current_predictions d) w = (Inr v, w1)"
    and v: "\<not> (\<exists>a b cs. v = Arr a b cs)"
    using calculate_distribution_drift_scalar [OF assms] by blast
  obtain w2 where g:
    "(if metrics_store d = ''prometheus''
      then gauge_set ''model_prediction_drift'' [model_name d, model_version d] v w1
      else (Inr (), w1)) = (Inr (), w2)"
    using gauge_set_scalar [OF v] by (cases "metrics_store d = ''prometheus''") (simp_all, blast)
  obtain b where p: "py_gt v (drift_threshold d) = Inr b"
    using py_gt_scalar [OF v] by blast
  show ?thesis
    using True c g p by (simp add: prediction_drift_block_def)
qed

lemma detect_drift_scalar:
  assumes "\<And>t r c s p q ps. ks_2samp E t r c \<noteq> Inr (s, PArray p q ps)"
  shows "\<exists>m w'. detect_drift E d w = (Inr m, reset_current_data d, w')"
proof -
  obtain fd w1 where 1: "feature_drift_loop E d (current_features d) [] (step w) = (Inr fd, w1)"
    using feature_drift_loop_scalar [OF assms] by blast
  obtain pd w2 where 2: "prediction_drift_block E d w1 = (Inr pd, w2)"
    using prediction_drift_block_scalar [OF assms] by blast
  show ?thesis using detect_drift_after_scores [OF 1 2] .
qed

end
